theory Spec2Isabelle
  imports Complex_Main "HOL-Library.Char_ord" "HOL-Library.List_Lexorder"
begin

section \<open>Python values and exceptions\<close>

text \<open>
  The runtime (class \<open>GameRuntime\<close>) reads rule parameters out of dictionaries
  that come from the project file, so a parameter can be a number, a string or
  \<open>None\<close>. Python's \<open>int\<close> and \<open>float\<close> are both modelled by their exact value
  (\<open>PNum\<close>), so float rounding is left out and a float with an integral value is
  not told apart from the \<open>int\<close> of that value; a JSON boolean is the number 0 or 1,
  as in Python. An exception is the \<open>Inl\<close> branch of a sum; nothing in the runtime
  class catches one. \<open>TclError\<close> is what a Tk widget call raises when the widget no
  longer exists.
\<close>

datatype pyval = PNum real | PStr string | PNone

datatype error = TypeError | ZeroDivisionError | IndexError | TclError

definition ebind :: "error + 'a \<Rightarrow> ('a \<Rightarrow> error + 'b) \<Rightarrow> error + 'b" where
  "ebind m f = (case m of Inl e \<Rightarrow> Inl e | Inr v \<Rightarrow> f v)"

text \<open>\<open>a + b\<close>: numbers add, strings concatenate, anything else raises.\<close>

fun py_add :: "pyval \<Rightarrow> pyval \<Rightarrow> error + pyval" where
  "py_add (PNum a) (PNum b) = Inr (PNum (a + b))"
| "py_add (PStr a) (PStr b) = Inr (PStr (a @ b))"
| "py_add _ _ = Inl TypeError"

text \<open>\<open>a - b\<close> and unary minus are defined on numbers only.\<close>

fun py_sub :: "pyval \<Rightarrow> pyval \<Rightarrow> error + pyval" where
  "py_sub (PNum a) (PNum b) = Inr (PNum (a - b))"
| "py_sub _ _ = Inl TypeError"

fun py_neg :: "pyval \<Rightarrow> error + pyval" where
  "py_neg (PNum a) = Inr (PNum (- a))"
| "py_neg _ = Inl TypeError"

text \<open>
  \<open>v * k\<close> for an \<open>int\<close> k: a string is repeated (not at all for \<open>k \<le> 0\<close>);
  \<open>v * f\<close> for a \<open>float\<close> f raises on a string.
\<close>

fun py_mul_int :: "pyval \<Rightarrow> int \<Rightarrow> error + pyval" where
  "py_mul_int (PNum a) k = Inr (PNum (a * of_int k))"
| "py_mul_int (PStr s) k = Inr (PStr (concat (replicate (nat k) s)))"
| "py_mul_int PNone k = Inl TypeError"

fun py_mul_float :: "pyval \<Rightarrow> real \<Rightarrow> error + pyval" where
  "py_mul_float (PNum a) f = Inr (PNum (a * f))"
| "py_mul_float _ f = Inl TypeError"

fun py_abs :: "pyval \<Rightarrow> error + pyval" where
  "py_abs (PNum a) = Inr (PNum \<bar>a\<bar>)"
| "py_abs _ = Inl TypeError"

text \<open>
  Ordering: two numbers by value, two strings lexicographically, every other pair
  raises \<open>TypeError\<close>. Equality never raises and is the equality of \<open>pyval\<close>.
\<close>

fun py_lt :: "pyval \<Rightarrow> pyval \<Rightarrow> error + bool" where
  "py_lt (PNum a) (PNum b) = Inr (a < b)"
| "py_lt (PStr a) (PStr b) = Inr (a < b)"
| "py_lt _ _ = Inl TypeError"

fun py_le :: "pyval \<Rightarrow> pyval \<Rightarrow> error + bool" where
  "py_le (PNum a) (PNum b) = Inr (a \<le> b)"
| "py_le (PStr a) (PStr b) = Inr (a \<le> b)"
| "py_le _ _ = Inl TypeError"

definition py_gt :: "pyval \<Rightarrow> pyval \<Rightarrow> error + bool" where
  "py_gt a b = py_lt b a"

definition py_ge :: "pyval \<Rightarrow> pyval \<Rightarrow> error + bool" where
  "py_ge a b = py_le b a"

text \<open>
  \<open>a % n\<close> for a number a: the remainder has the sign of the divisor, and a zero
  divisor raises \<open>ZeroDivisionError\<close>.
\<close>

fun py_mod :: "real \<Rightarrow> pyval \<Rightarrow> error + real" where
  "py_mod a (PNum n) =
     (if n = 0 then Inl ZeroDivisionError else Inr (a - n * of_int \<lfloor>a / n\<rfloor>))"
| "py_mod a _ = Inl TypeError"

text \<open>\<open>d.get(k, default)\<close> on a parameter dictionary.\<close>

definition pget :: "(string \<rightharpoonup> pyval) \<Rightarrow> string \<Rightarrow> pyval \<Rightarrow> pyval" where
  "pget d k dflt = (case d k of None \<Rightarrow> dflt | Some v \<Rightarrow> v)"

section \<open>Project data model\<close>

text \<open>
  An entity is one dictionary of \<open>make_default_object\<close> together with the runtime
  keys that \<open>load_frame\<close> adds (\<open>dx\<close>, \<open>dy\<close>, \<open>grounded\<close>, \<open>alive\<close>, \<open>flash_timer\<close>,
  \<open>dir_x\<close>, \<open>gravity\<close>). The keys an action can overwrite with a parameter hold a
  \<open>pyval\<close>; the drawing keys (colours, shape, layer, animations) are left out, the
  simulation never reads them.
\<close>

record entity =
  e_id :: string
  e_type :: pyval
  e_name :: string
  e_x :: pyval
  e_y :: pyval
  e_w :: real
  e_h :: real
  e_visible :: bool
  e_speed :: pyval
  e_movement :: string
  e_counter_value :: pyval
  e_solid :: bool
  e_score_value :: real
  e_destroy_on_collect :: bool
  e_dx :: pyval
  e_dy :: real
  e_grounded :: bool
  e_alive :: bool
  e_flash_timer :: pyval
  e_dir_x :: int
  e_gravity :: bool

text \<open>
  \<open>make_condition\<close>, \<open>make_action\<close>, \<open>make_event_group\<close>. A condition dictionary
  gets the key \<open>_fired\<close> from \<open>eval_condition\<close>; a missing key reads as false.
\<close>

record condition =
  c_type :: string
  c_target :: string
  c_params :: "string \<rightharpoonup> pyval"
  c_negated :: bool
  c_fired :: bool

record action =
  a_type :: string
  a_target :: string
  a_params :: "string \<rightharpoonup> pyval"

record event_group =
  g_active :: bool
  g_conditions :: "condition list"
  g_actions :: "action list"

record frame =
  f_width :: real
  f_height :: real
  f_objects :: "entity list"
  f_events :: "event_group list"

text \<open>
  The fields of \<open>GameRuntime\<close>. \<open>frames\<close> is \<open>self.project["frames"]\<close>, the runtime's
  own deep copy of the project. \<open>uid_src\<close> and \<open>uid_ctr\<close> stand for \<open>uuid.uuid4\<close>:
  the n-th call of \<open>uid()\<close> in the session returns \<open>uid_src n\<close>. \<open>py_str\<close> is
  Python's \<open>str()\<close> on a value that is not a string, as the f-string of
  \<open>make_default_object\<close> uses it. Of the Tk side the state keeps one bit:
  \<open>destroyed\<close> holds once \<open>self.destroy()\<close> has been called, after which the window
  and its canvas no longer exist and a call on either of them raises \<open>TclError\<close>.
\<close>

record state =
  frames :: "frame list"
  current_frame_idx :: int
  running :: bool
  paused :: bool
  frame_ms :: int
  tick :: int
  score :: pyval
  lives :: int
  global_values :: "pyval list"
  keys :: "string \<Rightarrow> bool"
  mouse_buttons :: "nat set"
  entities :: "entity list"
  frame_started :: bool
  uid_src :: "nat \<Rightarrow> string"
  uid_ctr :: nat
  py_str :: "pyval \<Rightarrow> string"
  destroyed :: bool

text \<open>
  \<open>xs[i]\<close>: a list subscript counts from the end when the index is negative and
  raises when it falls outside the list. \<open>py_pos\<close> is the position that is read.
\<close>

definition py_pos :: "'a list \<Rightarrow> int \<Rightarrow> error + nat" where
  "py_pos xs i =
     (if 0 \<le> i \<and> i < int (length xs) then Inr (nat i)
      else if - int (length xs) \<le> i \<and> i < 0 then Inr (nat (int (length xs) + i))
      else Inl IndexError)"

definition py_index :: "'a list \<Rightarrow> int \<Rightarrow> error + 'a" where
  "py_index xs i = ebind (py_pos xs i) (\<lambda>k. Inr (xs ! k))"

section \<open>Scene loading\<close>

text \<open>
  \<open>close\<close>: \<open>self.running = False\<close>, then \<open>self.destroy()\<close>. Destroying a window that is
  already destroyed does nothing.
\<close>

definition close :: "state \<Rightarrow> state" where
  "close st = st\<lparr>running := False, destroyed := True\<rparr>"

definition spawn :: "entity \<Rightarrow> entity" where
  "spawn obj = obj\<lparr>e_dx := PNum 0, e_dy := 0, e_grounded := False, e_alive := True,
     e_flash_timer := PNum 0,
     e_dir_x := (if e_movement obj \<noteq> ''Static'' then 1 else 0),
     e_gravity := (e_movement obj = ''Player'' \<or> e_movement obj = ''Platform'')\<rparr>"

text \<open>
  \<open>load_frame(idx)\<close>. The index is compared before it is used, so a string or
  \<open>None\<close> raises at \<open>idx < 0\<close>, an index out of range closes the session, and a
  number in range that is not integral raises at the list subscript. The next
  statement sets the background of the canvas, which raises when the window has
  been destroyed; the colour is taken to be one that Tk accepts.
\<close>

definition load_frame :: "pyval \<Rightarrow> state \<Rightarrow> error + state" where
  "load_frame idx st =
     ebind (py_lt idx (PNum 0)) (\<lambda>neg.
     ebind (if neg then Inr True else py_ge idx (PNum (real (length (frames st))))) (\<lambda>out.
       if out then Inr (close st)
       else (case idx of
               PNum r \<Rightarrow>
                 if of_int \<lfloor>r\<rfloor> \<noteq> r then Inl TypeError
                 else if destroyed st then Inl TclError
                 else
                   Inr (st\<lparr>current_frame_idx := \<lfloor>r\<rfloor>,
                           entities := map spawn (f_objects (frames st ! nat \<lfloor>r\<rfloor>)),
                           frame_started := True,
                           tick := 0\<rparr>)
             | _ \<Rightarrow> Inl TypeError)))"

section \<open>Rule engine\<close>

text \<open>
  \<open>aabb_overlap(a, b)\<close>; \<open>and\<close> stops at the first false conjunct, so a later
  operand that would raise is not evaluated.
\<close>

definition aabb_overlap :: "entity \<Rightarrow> entity \<Rightarrow> error + bool" where
  "aabb_overlap a b =
     ebind (py_add (e_x b) (PNum (e_w b))) (\<lambda>bx1.
     ebind (py_lt (e_x a) bx1) (\<lambda>c1.
       if \<not> c1 then Inr False else
     ebind (py_add (e_x a) (PNum (e_w a))) (\<lambda>ax1.
     ebind (py_gt ax1 (e_x b)) (\<lambda>c2.
       if \<not> c2 then Inr False else
     ebind (py_add (e_y b) (PNum (e_h b))) (\<lambda>by1.
     ebind (py_lt (e_y a) by1) (\<lambda>c3.
       if \<not> c3 then Inr False else
     ebind (py_add (e_y a) (PNum (e_h a))) (\<lambda>ay1.
       py_gt ay1 (e_y b))))))))"

text \<open>\<open>find_entities(name_or_type)\<close>: the alive entities whose name or type equals the selector.\<close>

definition matches :: "pyval \<Rightarrow> entity \<Rightarrow> bool" where
  "matches sel e \<longleftrightarrow> e_alive e \<and> (PStr (e_name e) = sel \<or> e_type e = sel)"

definition find_entities :: "state \<Rightarrow> pyval \<Rightarrow> entity list" where
  "find_entities st sel = filter (matches sel) (entities st)"

text \<open>\<open>compare(a, op, b)\<close>; an unknown operator is false.\<close>

definition compare :: "pyval \<Rightarrow> pyval \<Rightarrow> pyval \<Rightarrow> error + bool" where
  "compare a op b =
     (if op = PStr ''=='' then Inr (a = b)
      else if op = PStr ''!='' then Inr (a \<noteq> b)
      else if op = PStr ''<'' then py_lt a b
      else if op = PStr ''<='' then py_le a b
      else if op = PStr ''>'' then py_gt a b
      else if op = PStr ''>='' then py_ge a b
      else Inr False)"

text \<open>The two nested loops of "Collides with": the first overlapping pair with different ids.\<close>

fun collides_one :: "entity \<Rightarrow> entity list \<Rightarrow> error + bool" where
  "collides_one s [] = Inr False"
| "collides_one s (t # ts) =
     (if e_id s \<noteq> e_id t then
        ebind (aabb_overlap s t) (\<lambda>ov. if ov then Inr True else collides_one s ts)
      else collides_one s ts)"

fun collides_any :: "entity list \<Rightarrow> entity list \<Rightarrow> error + bool" where
  "collides_any [] tgt = Inr False"
| "collides_any (s # src) tgt =
     ebind (collides_one s tgt) (\<lambda>hit. if hit then Inr True else collides_any src tgt)"

fun counter_any :: "pyval \<Rightarrow> pyval \<Rightarrow> entity list \<Rightarrow> error + bool" where
  "counter_any op val [] = Inr False"
| "counter_any op val (e # ents) =
     ebind (compare (e_counter_value e) op val) (\<lambda>ok.
       if ok then Inr True else counter_any op val ents)"

definition out_of_playfield :: "frame \<Rightarrow> entity \<Rightarrow> error + bool" where
  "out_of_playfield fr e =
     ebind (py_add (e_x e) (PNum (e_w e))) (\<lambda>r.
     ebind (py_lt r (PNum (- 50))) (\<lambda>c1. if c1 then Inr True else
     ebind (py_gt (e_x e) (PNum (f_width fr + 50))) (\<lambda>c2. if c2 then Inr True else
     ebind (py_add (e_y e) (PNum (e_h e))) (\<lambda>b.
     ebind (py_lt b (PNum (- 50))) (\<lambda>c3. if c3 then Inr True else
       py_gt (e_y e) (PNum (f_height fr + 50)))))))"

fun out_any :: "frame \<Rightarrow> entity list \<Rightarrow> error + bool" where
  "out_any fr [] = Inr False"
| "out_any fr (e # ents) =
     ebind (out_of_playfield fr e) (\<lambda>out. if out then Inr True else out_any fr ents)"

text \<open>
  \<open>eval_condition(cond)\<close> returns the truth value and the condition dictionary, which
  "Once" changes (\<open>cond["_fired"] = True\<close>). The rest of the state is only read.
\<close>

definition eval_condition :: "condition \<Rightarrow> state \<Rightarrow> error + (bool \<times> condition)" where
  "eval_condition cond st =
     (let ctype = c_type cond; target = PStr (c_target cond); params = c_params cond in
      if ctype = ''Always'' then Inr (True, cond)
      else if ctype = ''Never'' then Inr (False, cond)
      else if ctype = ''Once'' then
        (if \<not> c_fired cond then Inr (True, cond\<lparr>c_fired := True\<rparr>) else Inr (False, cond))
      else if ctype = ''At start of frame'' then Inr (frame_started st, cond)
      else if ctype = ''Key pressed'' then
        (case pget params ''key'' (PStr '''') of
           PStr k \<Rightarrow> Inr (keys st k, cond)
         | _ \<Rightarrow> Inr (False, cond))
      else if ctype = ''Every N ms'' then
        ebind (py_mod (of_int (tick st * frame_ms st)) (pget params ''ms'' (PNum 1000))) (\<lambda>r.
          Inr (r < of_int (frame_ms st), cond))
      else if ctype = ''Collides with'' then
        ebind (collides_any (find_entities st target)
                 (find_entities st (pget params ''other'' (PStr '''')))) (\<lambda>b. Inr (b, cond))
      else if ctype = ''Compare counter'' then
        ebind (counter_any (pget params ''op'' (PStr ''==''))
                 (pget params ''value'' (PNum 0)) (find_entities st target)) (\<lambda>b. Inr (b, cond))
      else if ctype = ''Mouse clicked'' then Inr (1 \<in> mouse_buttons st, cond)
      else if ctype = ''Object out of playfield'' then
        ebind (py_index (frames st) (current_frame_idx st)) (\<lambda>fr.
        ebind (out_any fr (find_entities st target)) (\<lambda>b. Inr (b, cond)))
      else Inr (False, cond))"

text \<open>
  \<open>make_default_object(obj_type, x, y)\<close>. The dictionary literal calls \<open>uid()\<close> for the
  id first and for the name second. The runtime keys are not in the dictionary yet;
  "Create object" sets them right after.
\<close>

definition make_default_object :: "state \<Rightarrow> pyval \<Rightarrow> pyval \<Rightarrow> pyval \<Rightarrow> entity" where
  "make_default_object st obj_type x y =
     (let obj = \<lparr>
        e_id = uid_src st (uid_ctr st),
        e_type = obj_type,
        e_name = (case obj_type of PStr t \<Rightarrow> t | _ \<Rightarrow> py_str st obj_type)
                   @ ''_'' @ take 4 (uid_src st (uid_ctr st + 1)),
        e_x = x, e_y = y, e_w = 32, e_h = 32,
        e_visible = True,
        e_speed = PNum 0,
        e_movement = ''Static'',
        e_counter_value = PNum 0,
        e_solid = (obj_type = PStr ''Backdrop'' \<or> obj_type = PStr ''Platform''),
        e_score_value = (if obj_type \<noteq> PStr ''Coin'' then 0 else 100),
        e_destroy_on_collect = (obj_type = PStr ''Coin''),
        e_dx = PNum 0, e_dy = 0, e_grounded = False, e_alive = True,
        e_flash_timer = PNum 0, e_dir_x = 1, e_gravity = False\<rparr>
      in if obj_type = PStr ''Platform'' then
           obj\<lparr>e_w := 96, e_solid := True, e_movement := ''Static''\<rparr>
         else if obj_type = PStr ''Player'' then
           obj\<lparr>e_movement := ''Player'', e_speed := PNum 5\<rparr>
         else if obj_type = PStr ''Enemy'' then
           obj\<lparr>e_movement := ''Bouncing'', e_speed := PNum 2\<rparr>
         else if obj_type = PStr ''Coin'' then obj\<lparr>e_w := 24, e_h := 24\<rparr>
         else if obj_type = PStr ''Counter'' then
           obj\<lparr>e_counter_value := PNum 0, e_w := 64, e_h := 24\<rparr>
         else if obj_type = PStr ''Text'' then obj\<lparr>e_w := 120, e_h := 28\<rparr>
         else if obj_type = PStr ''Trigger'' then
           obj\<lparr>e_w := 48, e_h := 48, e_visible := False\<rparr>
         else if obj_type = PStr ''Particle'' then obj\<lparr>e_w := 16, e_h := 16\<rparr>
         else obj)"

text \<open>
  \<open>for e in self.find_entities(target): ...\<close>: the matching entities are collected
  first and then changed in place, in list order; an exception leaves the loop.
\<close>

fun update_targets :: "pyval \<Rightarrow> (entity \<Rightarrow> error + entity) \<Rightarrow> entity list \<Rightarrow> error + entity list" where
  "update_targets sel f [] = Inr []"
| "update_targets sel f (e # es) =
     (if matches sel e then
        ebind (f e) (\<lambda>e'. ebind (update_targets sel f es) (\<lambda>es'. Inr (e' # es')))
      else ebind (update_targets sel f es) (\<lambda>es'. Inr (e # es')))"

definition on_targets :: "state \<Rightarrow> string \<Rightarrow> (entity \<Rightarrow> error + entity) \<Rightarrow> error + state" where
  "on_targets st target f =
     ebind (update_targets (PStr target) f (entities st)) (\<lambda>es. Inr (st\<lparr>entities := es\<rparr>))"

text \<open>
  \<open>if 0 <= idx < len(self.global_values)\<close>, then the subscript: the position of a
  valid index, \<open>None\<close> when the guard is false.
\<close>

definition global_slot :: "pyval list \<Rightarrow> pyval \<Rightarrow> error + nat option" where
  "global_slot gv idx =
     ebind (py_le (PNum 0) idx) (\<lambda>lo. if \<not> lo then Inr None else
     ebind (py_lt idx (PNum (real (length gv)))) (\<lambda>hi. if \<not> hi then Inr None else
       (case idx of
          PNum r \<Rightarrow> if of_int \<lfloor>r\<rfloor> = r then Inr (Some (nat \<lfloor>r\<rfloor>)) else Inl TypeError
        | _ \<Rightarrow> Inl TypeError)))"

text \<open>\<open>exec_action(action)\<close>; an unknown action type does nothing.\<close>

definition exec_action :: "action \<Rightarrow> state \<Rightarrow> error + state" where
  "exec_action act st =
     (let atype = a_type act; target = a_target act; params = a_params act in
      if atype = ''Destroy'' then
        on_targets st target (\<lambda>e. Inr (e\<lparr>e_alive := False\<rparr>))
      else if atype = ''Set position'' then
        on_targets st target (\<lambda>e. Inr (e\<lparr>e_x := pget params ''x'' (e_x e),
                                            e_y := pget params ''y'' (e_y e)\<rparr>))
      else if atype = ''Set X'' then
        on_targets st target (\<lambda>e. Inr (e\<lparr>e_x := pget params ''value'' (PNum 0)\<rparr>))
      else if atype = ''Set Y'' then
        on_targets st target (\<lambda>e. Inr (e\<lparr>e_y := pget params ''value'' (PNum 0)\<rparr>))
      else if atype = ''Set speed'' then
        on_targets st target (\<lambda>e. Inr (e\<lparr>e_speed := pget params ''value'' (PNum 0)\<rparr>))
      else if atype = ''Add to counter'' then
        on_targets st target (\<lambda>e.
          ebind (py_add (e_counter_value e) (pget params ''value'' (PNum 1))) (\<lambda>v.
            Inr (e\<lparr>e_counter_value := v\<rparr>)))
      else if atype = ''Set counter to'' then
        on_targets st target (\<lambda>e. Inr (e\<lparr>e_counter_value := pget params ''value'' (PNum 0)\<rparr>))
      else if atype = ''Add to score'' then
        ebind (py_add (score st) (pget params ''value'' (PNum 100))) (\<lambda>v. Inr (st\<lparr>score := v\<rparr>))
      else if atype = ''Set score'' then
        Inr (st\<lparr>score := pget params ''value'' (PNum 0)\<rparr>)
      else if atype = ''Subtract life'' then
        Inr (st\<lparr>lives := max 0 (lives st - 1)\<rparr>)
      else if atype = ''Add life'' then
        Inr (st\<lparr>lives := lives st + 1\<rparr>)
      else if atype = ''Go to frame'' then
        load_frame (pget params ''frame'' (PNum 0)) st
      else if atype = ''Next frame (app)'' then
        load_frame (PNum (of_int (current_frame_idx st + 1))) st
      else if atype = ''Restart frame'' then
        load_frame (PNum (of_int (current_frame_idx st))) st
      else if atype = ''End application'' then
        Inr (close st)
      else if atype = ''Make invisible'' then
        on_targets st target (\<lambda>e. Inr (e\<lparr>e_visible := False\<rparr>))
      else if atype = ''Make visible'' then
        on_targets st target (\<lambda>e. Inr (e\<lparr>e_visible := True\<rparr>))
      else if atype = ''Flash'' then
        on_targets st target (\<lambda>e. Inr (e\<lparr>e_flash_timer := pget params ''duration'' (PNum 30)\<rparr>))
      else if atype = ''Bounce'' then
        on_targets st target (\<lambda>e.
          ebind (py_mul_int (e_dx e) (- 1)) (\<lambda>v.
            Inr (e\<lparr>e_dir_x := e_dir_x e * (- 1), e_dx := v\<rparr>)))
      else if atype = ''Set global value'' then
        ebind (global_slot (global_values st) (pget params ''index'' (PNum 0))) (\<lambda>slot.
          case slot of
            None \<Rightarrow> Inr st
          | Some i \<Rightarrow>
              Inr (st\<lparr>global_values := (global_values st)[i := pget params ''value'' (PNum 0)]\<rparr>))
      else if atype = ''Add to global value'' then
        ebind (global_slot (global_values st) (pget params ''index'' (PNum 0))) (\<lambda>slot.
          case slot of
            None \<Rightarrow> Inr st
          | Some i \<Rightarrow>
              ebind (py_add (global_values st ! i) (pget params ''value'' (PNum 1))) (\<lambda>v.
                Inr (st\<lparr>global_values := (global_values st)[i := v]\<rparr>)))
      else if atype = ''Create object'' then
        (let new_obj = make_default_object st (pget params ''obj_type'' (PStr ''Active''))
                         (pget params ''x'' (PNum 0)) (pget params ''y'' (PNum 0))
         in Inr (st\<lparr>entities := entities st @
                       [new_obj\<lparr>e_dx := PNum 0, e_dy := 0, e_grounded := False, e_alive := True,
                                e_flash_timer := PNum 0, e_dir_x := 1, e_gravity := False\<rparr>],
                     uid_ctr := uid_ctr st + 2\<rparr>))
      else Inr st)"

text \<open>
  \<open>process_events(frame)\<close>. The inner loop over the conditions stops at the first one
  that is not met; the conditions evaluated so far keep what \<open>eval_condition\<close> wrote
  into them.
\<close>

fun eval_conditions :: "condition list \<Rightarrow> state \<Rightarrow> error + (bool \<times> condition list)" where
  "eval_conditions [] st = Inr (True, [])"
| "eval_conditions (cond # conds) st =
     ebind (eval_condition cond st) (\<lambda>(met, cond').
       if \<not> (if c_negated cond then \<not> met else met) then Inr (False, cond' # conds)
       else ebind (eval_conditions conds st) (\<lambda>(all_met, conds'). Inr (all_met, cond' # conds')))"

fun exec_actions :: "action list \<Rightarrow> state \<Rightarrow> error + state" where
  "exec_actions [] st = Inr st"
| "exec_actions (act # acts) st = ebind (exec_action act st) (exec_actions acts)"

definition process_group :: "event_group \<Rightarrow> state \<Rightarrow> error + (event_group \<times> state)" where
  "process_group grp st =
     (if \<not> g_active grp then Inr (grp, st)
      else ebind (eval_conditions (g_conditions grp) st) (\<lambda>(all_conditions_met, conds').
             if all_conditions_met \<and> g_conditions grp \<noteq> [] then
               ebind (exec_actions (g_actions grp) st) (\<lambda>st'.
                 Inr (grp\<lparr>g_conditions := conds'\<rparr>, st'))
             else Inr (grp\<lparr>g_conditions := conds'\<rparr>, st)))"

fun process_groups :: "event_group list \<Rightarrow> state \<Rightarrow> error + (event_group list \<times> state)" where
  "process_groups [] st = Inr ([], st)"
| "process_groups (grp # grps) st =
     ebind (process_group grp st) (\<lambda>(grp', st').
     ebind (process_groups grps st') (\<lambda>(grps', st''). Inr (grp' # grps', st'')))"

text \<open>
  The caller passes \<open>self.project["frames"][self.current_frame_idx]\<close>, read before the
  loop: \<open>fi\<close> is the position of that frame. A "Go to frame" inside the loop changes
  \<open>current_frame_idx\<close>, not the list the loop runs over. The changed conditions are
  the ones of that frame's dictionary.
\<close>

definition process_events :: "nat \<Rightarrow> state \<Rightarrow> error + state" where
  "process_events fi st =
     ebind (process_groups (f_events (frames st ! fi)) st) (\<lambda>(grps', st').
       Inr (st'\<lparr>frames := (frames st')[fi := (frames st' ! fi)\<lparr>f_events := grps'\<rparr>]\<rparr>))"

section \<open>Movement and physics\<close>

text \<open>A \<open>for\<close> loop whose body may raise: the exception ends the loop.\<close>

fun efold :: "('b \<Rightarrow> 'a \<Rightarrow> error + 'a) \<Rightarrow> 'b list \<Rightarrow> 'a \<Rightarrow> error + 'a" where
  "efold f [] a = Inr a"
| "efold f (x # xs) a = ebind (f x a) (efold f xs)"

text \<open>\<open>clamp(val, lo, hi) = max(lo, min(hi, val))\<close>; \<open>min\<close> asks \<open>val < hi\<close>, \<open>max\<close> asks \<open>m > lo\<close>.\<close>

definition clamp :: "pyval \<Rightarrow> real \<Rightarrow> real \<Rightarrow> error + pyval" where
  "clamp val lo hi =
     ebind (py_lt val (PNum hi)) (\<lambda>b. let m = (if b then val else PNum hi) in
     ebind (py_gt m (PNum lo)) (\<lambda>c. Inr (if c then m else PNum lo)))"

text \<open>The body of "Resolve X collisions" for one solid \<open>s\<close>.\<close>

definition resolve_x :: "entity \<Rightarrow> entity \<Rightarrow> error + entity" where
  "resolve_x s e =
     (if e_id s = e_id e then Inr e
      else ebind (aabb_overlap e s) (\<lambda>ov.
        if ov then
          ebind (py_gt (e_dx e) (PNum 0)) (\<lambda>right.
            if right then
              ebind (py_sub (e_x s) (PNum (e_w e))) (\<lambda>v. Inr (e\<lparr>e_x := v, e_dx := PNum 0\<rparr>))
            else
              ebind (py_lt (e_dx e) (PNum 0)) (\<lambda>left.
                if left then
                  ebind (py_add (e_x s) (PNum (e_w s))) (\<lambda>v. Inr (e\<lparr>e_x := v, e_dx := PNum 0\<rparr>))
                else Inr (e\<lparr>e_dx := PNum 0\<rparr>)))
        else Inr e))"

text \<open>The body of "Resolve Y collisions" for one solid \<open>s\<close>.\<close>

definition resolve_y :: "entity \<Rightarrow> entity \<Rightarrow> error + entity" where
  "resolve_y s e =
     (if e_id s = e_id e then Inr e
      else ebind (aabb_overlap e s) (\<lambda>ov.
        if ov then
          (if e_dy e > 0 then
             ebind (py_sub (e_y s) (PNum (e_h e))) (\<lambda>v.
               Inr (e\<lparr>e_y := v, e_dy := 0, e_grounded := True\<rparr>))
           else if e_dy e < 0 then
             ebind (py_add (e_y s) (PNum (e_h s))) (\<lambda>v. Inr (e\<lparr>e_y := v, e_dy := 0\<rparr>))
           else Inr e)
        else Inr e))"

text \<open>The branch \<open>movement == "Player"\<close> of \<open>update_physics\<close>, in the order of the source.\<close>

definition move_player :: "state \<Rightarrow> real \<Rightarrow> real \<Rightarrow> entity list \<Rightarrow> entity \<Rightarrow> error + entity" where
  "move_player st fw fh solids e0 =
     (let spd = e_speed e0 in
      ebind (if keys st ''Left'' then ebind (py_neg spd) (\<lambda>v. Inr (e0\<lparr>e_dx := v\<rparr>))
             else if keys st ''Right'' then Inr (e0\<lparr>e_dx := spd\<rparr>)
             else ebind (py_mul_float (e_dx e0) 0.7) (\<lambda>v.
                  ebind (py_abs v) (\<lambda>av.
                  ebind (py_lt av (PNum 0.5)) (\<lambda>small.
                    Inr (e0\<lparr>e_dx := (if small then PNum 0 else v)\<rparr>))))) (\<lambda>e1.
      let e2 = (if (keys st ''Up'' \<or> keys st ''space'') \<and> e_grounded e1
                then e1\<lparr>e_dy := - 12, e_grounded := False\<rparr> else e1);
          e3 = e2\<lparr>e_dy := e_dy e2 + 0.6\<rparr>;
          e4 = (if e_dy e3 > 15 then e3\<lparr>e_dy := 15\<rparr> else e3) in
      ebind (py_add (e_x e4) (e_dx e4)) (\<lambda>x1.
      ebind (efold resolve_x solids (e4\<lparr>e_x := x1\<rparr>)) (\<lambda>e5.
      ebind (py_add (e_y e5) (PNum (e_dy e5))) (\<lambda>y1.
      ebind (efold resolve_y solids (e5\<lparr>e_y := y1, e_grounded := False\<rparr>)) (\<lambda>e6.
      ebind (py_gt (e_y e6) (PNum (fh + 50))) (\<lambda>fell.
      let e7 = (if fell then e6\<lparr>e_y := PNum 0, e_dy := 0\<rparr> else e6) in
      ebind (clamp (e_x e7) (- e_w e7) fw) (\<lambda>x2. Inr (e7\<lparr>e_x := x2\<rparr>)))))))))"

text \<open>The branch \<open>movement == "Bouncing"\<close>.\<close>

definition bounce_solid :: "pyval \<Rightarrow> entity \<Rightarrow> entity \<Rightarrow> error + entity" where
  "bounce_solid spd s e =
     (if e_id s = e_id e then Inr e
      else ebind (aabb_overlap e s) (\<lambda>ov.
        if ov then
          (let d = e_dir_x e * (- 1) in
           ebind (py_mul_int spd d) (\<lambda>m1.
           ebind (py_mul_int m1 2) (\<lambda>m2.
           ebind (py_add (e_x e) m2) (\<lambda>v. Inr (e\<lparr>e_dir_x := d, e_x := v\<rparr>)))))
        else Inr e))"

definition move_bouncing :: "real \<Rightarrow> entity list \<Rightarrow> entity \<Rightarrow> error + entity" where
  "move_bouncing fw solids e0 =
     (let spd = e_speed e0 in
      ebind (py_mul_int spd (e_dir_x e0)) (\<lambda>stp.
      ebind (py_add (e_x e0) stp) (\<lambda>x1.
      let e1 = e0\<lparr>e_x := x1\<rparr> in
      ebind (py_le (e_x e1) (PNum 0)) (\<lambda>at_left.
      ebind (if at_left then Inr True
             else ebind (py_add (e_x e1) (PNum (e_w e1))) (\<lambda>r. py_ge r (PNum fw))) (\<lambda>at_edge.
      let e2 = (if at_edge then e1\<lparr>e_dir_x := e_dir_x e1 * (- 1)\<rparr> else e1) in
      efold (bounce_solid spd) solids e2)))))"

text \<open>The branch \<open>movement == "8Dir"\<close>.\<close>

definition move_8dir :: "state \<Rightarrow> entity \<Rightarrow> error + entity" where
  "move_8dir st e =
     (let spd = e_speed e in
      ebind (if keys st ''Left'' then py_sub (PNum 0) spd else Inr (PNum 0)) (\<lambda>dx1.
      ebind (if keys st ''Right'' then py_add dx1 spd else Inr dx1) (\<lambda>dx2.
      ebind (if keys st ''Up'' then py_sub (PNum 0) spd else Inr (PNum 0)) (\<lambda>dy1.
      ebind (if keys st ''Down'' then py_add dy1 spd else Inr dy1) (\<lambda>dy2.
      ebind (py_add (e_x e) dx2) (\<lambda>x1.
      ebind (py_add (e_y e) dy2) (\<lambda>y1. Inr (e\<lparr>e_x := x1, e_y := y1\<rparr>))))))))"

text \<open>"Flash effect": a positive timer counts down.\<close>

definition flash_step :: "entity \<Rightarrow> error + entity" where
  "flash_step e =
     ebind (py_gt (e_flash_timer e) (PNum 0)) (\<lambda>on.
       if on then ebind (py_sub (e_flash_timer e) (PNum 1)) (\<lambda>v. Inr (e\<lparr>e_flash_timer := v\<rparr>))
       else Inr e)"

text \<open>One pass of the loop body of \<open>update_physics\<close> for the entity \<open>e\<close>.\<close>

definition phys_entity :: "state \<Rightarrow> real \<Rightarrow> real \<Rightarrow> entity list \<Rightarrow> entity \<Rightarrow> error + entity" where
  "phys_entity st fw fh solids e =
     (if \<not> e_alive e then Inr e
      else ebind (if e_movement e = ''Player'' then move_player st fw fh solids e
                  else if e_movement e = ''Bouncing'' then move_bouncing fw solids e
                  else if e_movement e = ''8Dir'' then move_8dir st e
                  else Inr e) flash_step)"

text \<open>
  \<open>solids\<close> is a list of references into \<open>self.entities\<close>, built before the loop:
  the model keeps the positions and reads the entities at those positions when a
  body runs, so a solid that has moved earlier in the loop is seen where it is now.
\<close>

definition phys_at :: "state \<Rightarrow> real \<Rightarrow> real \<Rightarrow> nat list \<Rightarrow> nat \<Rightarrow> entity list \<Rightarrow> error + entity list" where
  "phys_at st fw fh solid_pos i es =
     ebind (phys_entity st fw fh (map (\<lambda>j. es ! j) solid_pos) (es ! i)) (\<lambda>e'. Inr (es[i := e']))"

definition update_physics :: "state \<Rightarrow> error + state" where
  "update_physics st =
     ebind (py_index (frames st) (current_frame_idx st)) (\<lambda>frame_data.
     let fw = f_width frame_data; fh = f_height frame_data; es = entities st;
         solid_pos = filter (\<lambda>j. e_alive (es ! j) \<and> e_solid (es ! j)) [0..<length es] in
     ebind (efold (phys_at st fw fh solid_pos) [0..<length es] es) (\<lambda>es'.
       Inr (st\<lparr>entities := es'\<rparr>)))"

section \<open>The tick\<close>

text \<open>
  The two built-in checks of \<open>game_loop\<close>. \<open>players\<close>, \<open>coins\<close> and \<open>enemies\<close> are
  lists of references built before each pair of loops; the model keeps positions in
  \<open>self.entities\<close> and runs the body for every pair, outer loop first. The sums in the
  overlap test and in the stomp test \<open>p["y"] + p["h"] - 10 < en["y"]\<close> are exact here,
  where the source rounds each of them to binary64.
\<close>

definition coin_step :: "nat \<times> nat \<Rightarrow> state \<Rightarrow> error + state" where
  "coin_step pc st =
     (let p = entities st ! fst pc; c = entities st ! snd pc in
      ebind (aabb_overlap p c) (\<lambda>ov.
        if ov then
          ebind (py_add (score st) (PNum (e_score_value c))) (\<lambda>v.
            Inr (st\<lparr>score := v,
                    entities := (if e_destroy_on_collect c
                                 then (entities st)[snd pc := c\<lparr>e_alive := False\<rparr>]
                                 else entities st)\<rparr>))
        else Inr st))"

definition enemy_step :: "nat \<times> nat \<Rightarrow> state \<Rightarrow> error + state" where
  "enemy_step pe st =
     (let p = entities st ! fst pe; en = entities st ! snd pe in
      ebind (aabb_overlap p en) (\<lambda>ov.
        if ov then
          ebind (if e_dy p > 0 then
                   ebind (py_add (e_y p) (PNum (e_h p))) (\<lambda>b.
                   ebind (py_sub b (PNum 10)) (\<lambda>b10. py_lt b10 (e_y en)))
                 else Inr False) (\<lambda>stomp.
            if stomp then
              ebind (py_add (score st) (PNum 200)) (\<lambda>v.
                Inr (st\<lparr>entities := (entities st)[snd pe := en\<lparr>e_alive := False\<rparr>,
                                                      fst pe := p\<lparr>e_dy := - 8\<rparr>],
                        score := v\<rparr>))
            else
              (let st1 = st\<lparr>lives := lives st - 1,
                            entities := (entities st)[fst pe := p\<lparr>e_x := PNum 50, e_y := PNum 50,
                                                                  e_dy := 0\<rparr>]\<rparr>
               in Inr (if lives st1 \<le> 0 then close st1 else st1)))
        else Inr st))"

definition positions_of :: "pyval \<Rightarrow> entity list \<Rightarrow> nat list" where
  "positions_of ty es = filter (\<lambda>j. e_type (es ! j) = ty \<and> e_alive (es ! j)) [0..<length es]"

definition check_coins :: "nat list \<Rightarrow> state \<Rightarrow> error + state" where
  "check_coins players st =
     efold coin_step (List.product players (positions_of (PStr ''Coin'') (entities st))) st"

definition check_enemies :: "nat list \<Rightarrow> state \<Rightarrow> error + state" where
  "check_enemies players st =
     efold enemy_step (List.product players (positions_of (PStr ''Enemy'') (entities st))) st"

text \<open>
  \<open>render\<close> changes no field of the runtime. It starts with \<open>self.canvas.delete("all")\<close>,
  which raises \<open>TclError\<close> once the window has been destroyed, and then reads the
  current frame. The drawing calls that follow are left out: on a canvas that
  exists they are taken to succeed.
\<close>

definition render :: "state \<Rightarrow> error + unit" where
  "render st =
     (if destroyed st then Inl TclError
      else ebind (py_pos (frames st) (current_frame_idx st)) (\<lambda>fi. Inr ()))"

text \<open>
  \<open>game_loop\<close>, one call. Between the rules and \<open>render\<close> the method does not look at
  \<open>self.running\<close> again. The last line of the source asks Tk to call \<open>game_loop\<close>
  again after \<open>frame_ms\<close>; it is not reached when the session is not running or when
  an exception leaves the method, and the model leaves the timer to \<open>ticks\<close> below.
\<close>

definition game_loop :: "state \<Rightarrow> error + state" where
  "game_loop st =
     (if \<not> running st then Inr st
      else if paused st then Inr st
      else
        ebind (py_pos (frames st) (current_frame_idx st)) (\<lambda>fi.
        ebind (process_events fi st) (\<lambda>st1.
        ebind (update_physics st1) (\<lambda>st2.
        let st3 = st2\<lparr>entities := filter e_alive (entities st2)\<rparr>;
            players = positions_of (PStr ''Player'') (entities st3) in
        ebind (check_coins players st3) (\<lambda>st4.
        ebind (check_enemies players st4) (\<lambda>st5.
        ebind (render st5) (\<lambda>u.
          Inr (st5\<lparr>frame_started := False, tick := tick st5 + 1\<rparr>))))))))"

section \<open>Starting a session\<close>

text \<open>
  The part of the project dictionary that \<open>GameRuntime.__init__\<close> reads. The
  constructor takes its own copy of the project, fills the fields, loads the start
  frame and calls \<open>game_loop\<close> for the first tick; every later tick is a call of
  \<open>game_loop\<close> by the Tk timer. \<open>runtime_init\<close> is the constructor up to that first
  call. \<open>1000 // fps\<close> raises for \<open>fps = 0\<close>, and the \<open>self.bind\<close> calls after
  \<open>load_frame\<close> raise when \<open>load_frame\<close> has closed the window.
\<close>

record project =
  p_frames :: "frame list"
  p_fps :: int
  p_lives :: int
  p_global_values :: "pyval list"

definition runtime_init ::
    "project \<Rightarrow> int \<Rightarrow> (nat \<Rightarrow> string) \<Rightarrow> (pyval \<Rightarrow> string) \<Rightarrow> error + state" where
  "runtime_init proj start_frame uids to_str =
     (if p_fps proj = 0 then Inl ZeroDivisionError
      else ebind (load_frame (PNum (of_int start_frame))
             \<lparr>frames = p_frames proj,
              current_frame_idx = start_frame,
              running = True,
              paused = False,
              frame_ms = max 1 (1000 div p_fps proj),
              tick = 0,
              score = PNum 0,
              lives = p_lives proj,
              global_values = p_global_values proj,
              keys = (\<lambda>k. False),
              mouse_buttons = {},
              entities = [],
              frame_started = False,
              uid_src = uids,
              uid_ctr = 0,
              py_str = to_str,
              destroyed = False\<rparr>)
             (\<lambda>st. if destroyed st then Inl TclError else Inr st))"

section \<open>Observations and example sessions\<close>

text \<open>The state that a loop over rule groups ends in, without the groups.\<close>

definition end_state :: "error + ('a \<times> state) \<Rightarrow> error + state" where
  "end_state r = (case r of Inl e \<Rightarrow> Inl e | Inr (a, s) \<Rightarrow> Inr s)"

text \<open>
  A session with no frames and no entities, and an object as \<open>make_default_object\<close>
  and \<open>load_frame\<close> leave it; the examples below change the fields they need.
\<close>

definition blank_state :: state where
  "blank_state = \<lparr>frames = [], current_frame_idx = 0, running = True, paused = False,
     frame_ms = 16, tick = 0, score = PNum 0, lives = 3,
     global_values = replicate 26 (PNum 0), keys = (\<lambda>k. False), mouse_buttons = {},
     entities = [], frame_started = False, uid_src = (\<lambda>n. ''0a1b2c3d''), uid_ctr = 0,
     py_str = (\<lambda>v. ''None''), destroyed = False\<rparr>"

definition blank_entity :: entity where
  "blank_entity = \<lparr>e_id = ''a0000001'', e_type = PStr ''Active'', e_name = ''Active_a000'',
     e_x = PNum 0, e_y = PNum 0, e_w = 32, e_h = 32, e_visible = True, e_speed = PNum 0,
     e_movement = ''Static'', e_counter_value = PNum 0, e_solid = False, e_score_value = 0,
     e_destroy_on_collect = False, e_dx = PNum 0, e_dy = 0, e_grounded = False,
     e_alive = True, e_flash_timer = PNum 0, e_dir_x = 0, e_gravity = False\<rparr>"

definition player_at :: "real \<Rightarrow> real \<Rightarrow> entity" where
  "player_at x y = blank_entity\<lparr>e_id := ''b0000002'', e_type := PStr ''Player'',
     e_name := ''Player_b000'', e_x := PNum x, e_y := PNum y, e_speed := PNum 5,
     e_movement := ''Player'', e_dir_x := 1, e_gravity := True\<rparr>"

definition enemy_at :: "real \<Rightarrow> real \<Rightarrow> entity" where
  "enemy_at x y = blank_entity\<lparr>e_id := ''c0000003'', e_type := PStr ''Enemy'',
     e_name := ''Enemy_c000'', e_x := PNum x, e_y := PNum y, e_speed := PNum 2,
     e_movement := ''Bouncing'', e_dir_x := 1\<rparr>"

definition coin_at :: "real \<Rightarrow> real \<Rightarrow> entity" where
  "coin_at x y = blank_entity\<lparr>e_id := ''d0000004'', e_type := PStr ''Coin'',
     e_name := ''Coin_d000'', e_x := PNum x, e_y := PNum y, e_w := 24, e_h := 24,
     e_score_value := 100, e_destroy_on_collect := True\<rparr>"

definition platform_at :: "real \<Rightarrow> real \<Rightarrow> entity" where
  "platform_at x y = blank_entity\<lparr>e_id := ''e0000005'', e_type := PStr ''Platform'',
     e_name := ''Platform_e000'', e_x := PNum x, e_y := PNum y, e_w := 96, e_solid := True\<rparr>"

definition blank_frame :: frame where
  "blank_frame = \<lparr>f_width = 800, f_height = 600, f_objects = [], f_events = []\<rparr>"

definition cond_of :: "string \<Rightarrow> (string \<rightharpoonup> pyval) \<Rightarrow> condition" where
  "cond_of ty ps = \<lparr>c_type = ty, c_target = '''', c_params = ps, c_negated = False,
     c_fired = False\<rparr>"

definition action_of :: "string \<Rightarrow> (string \<rightharpoonup> pyval) \<Rightarrow> action" where
  "action_of ty ps = \<lparr>a_type = ty, a_target = '''', a_params = ps\<rparr>"

definition rule_of :: "condition list \<Rightarrow> action list \<Rightarrow> event_group" where
  "rule_of cs as = \<lparr>g_active = True, g_conditions = cs, g_actions = as\<rparr>"



text \<open>Two scenes, 0 and 1.\<close>

definition two_scenes :: state where
  "two_scenes = blank_state\<lparr>frames := [blank_frame, blank_frame], current_frame_idx := 1\<rparr>"

text \<open>
  Two scenes where the rule of scene 0 asks for scene 2, and a single scene whose rule
  asks for the next scene, as the event editor writes it.
\<close>

definition out_of_range_project :: project where
  "out_of_range_project = \<lparr>p_frames =
       [blank_frame\<lparr>f_events :=
          [rule_of [cond_of ''Always'' Map.empty]
                   [action_of ''Go to frame'' [''frame'' \<mapsto> PNum 2]]]\<rparr>,
        blank_frame],
     p_fps = 60, p_lives = 3, p_global_values = replicate 26 (PNum 0)\<rparr>"

definition last_scene_project :: project where
  "last_scene_project = \<lparr>p_frames =
       [blank_frame\<lparr>f_events :=
          [rule_of [cond_of ''Always'' Map.empty]
                   [action_of ''Next frame (app)'' Map.empty]]\<rparr>],
     p_fps = 60, p_lives = 3, p_global_values = replicate 26 (PNum 0)\<rparr>"

text \<open>
  Reading one field out of the result of a call, and running \<open>n\<close> ticks: \<open>game_loop\<close> is
  called again only when the previous call returned.
\<close>

definition observe :: "(state \<Rightarrow> 'a) \<Rightarrow> error + state \<Rightarrow> error + 'a" where
  "observe f r = (case r of Inl e \<Rightarrow> Inl e | Inr s \<Rightarrow> Inr (f s))"

primrec ticks :: "nat \<Rightarrow> error + state \<Rightarrow> error + state" where
  "ticks 0 r = r"
| "ticks (Suc n) r = ticks n (ebind r game_loop)"

text \<open>A session started on frame 0 of a project.\<close>

definition session :: "project \<Rightarrow> error + state" where
  "session proj = runtime_init proj 0 (uid_src blank_state) (py_str blank_state)"

text \<open>A project whose only rule has "Every N ms" with a period of zero.\<close>

definition zero_period_project :: project where
  "zero_period_project = \<lparr>p_frames = [blank_frame\<lparr>f_events :=
       [rule_of [cond_of ''Every N ms'' [''ms'' \<mapsto> PNum 0]]
                [action_of ''Add to score'' Map.empty]]\<rparr>],
     p_fps = 60, p_lives = 3, p_global_values = replicate 26 (PNum 0)\<rparr>"

definition zero_period_state :: state where
  "zero_period_state = blank_state\<lparr>frame_started := True,
     frames := [blank_frame\<lparr>f_events :=
       [rule_of [cond_of ''Every N ms'' [''ms'' \<mapsto> PNum 0]]
                [action_of ''Add to score'' Map.empty]]\<rparr>]\<rparr>"

text \<open>
  A scene with two rules, where the zero period sits in the second condition of the
  second rule, and a scene whose rule has a malformed second action.
\<close>

definition late_fault_state :: state where
  "late_fault_state = blank_state\<lparr>frame_started := True,
     frames := [blank_frame\<lparr>f_events :=
       [rule_of [cond_of ''Always'' Map.empty] [action_of ''Add to score'' Map.empty],
        rule_of [cond_of ''Always'' Map.empty, cond_of ''Every N ms'' [''ms'' \<mapsto> PNum 0]]
                [action_of ''Add life'' Map.empty]]\<rparr>]\<rparr>"

definition bad_action_state :: state where
  "bad_action_state = blank_state\<lparr>frame_started := True,
     frames := [blank_frame\<lparr>f_events :=
       [rule_of [cond_of ''Always'' Map.empty]
                [action_of ''Add life'' Map.empty,
                 action_of ''Add to score'' [''value'' \<mapsto> PStr ''ten'']]]\<rparr>]\<rparr>"

text \<open>A counter object, and "Compare counter" conditions against the string "ten".\<close>

definition counter_state :: state where
  "counter_state = blank_state\<lparr>frames := [blank_frame],
     entities := [blank_entity\<lparr>e_type := PStr ''Counter'', e_name := ''Counter_a000'',
                                e_counter_value := PNum 7\<rparr>]\<rparr>"

definition counter_cond :: "string \<Rightarrow> condition" where
  "counter_cond opr = (cond_of ''Compare counter''
     [''op'' \<mapsto> PStr opr, ''value'' \<mapsto> PStr ''ten''])\<lparr>c_target := ''Counter''\<rparr>"

text \<open>
  Two scenes, with rules as the event editor writes them (no parameters). The rule of
  scene 0 goes to the next scene at once; the rule of scene 1 adds to the score (100 by
  default) at the start of the frame. \<open>start_rule_project\<close> has only the second
  scene, so the session starts in it.
\<close>

definition start_rule_frame :: frame where
  "start_rule_frame = blank_frame\<lparr>f_events :=
     [rule_of [cond_of ''At start of frame'' Map.empty]
              [action_of ''Add to score'' Map.empty]]\<rparr>"

definition transition_project :: project where
  "transition_project = \<lparr>p_frames =
       [blank_frame\<lparr>f_events :=
          [rule_of [cond_of ''Always'' Map.empty]
                   [action_of ''Next frame (app)'' Map.empty]]\<rparr>,
        start_rule_frame],
     p_fps = 60, p_lives = 3, p_global_values = replicate 26 (PNum 0)\<rparr>"

definition start_rule_project :: project where
  "start_rule_project = \<lparr>p_frames = [start_rule_frame],
     p_fps = 60, p_lives = 3, p_global_values = replicate 26 (PNum 0)\<rparr>"



text \<open>What a tick may do to a condition: the type stays, a set fired flag stays set.\<close>

definition cond_kept :: "condition \<Rightarrow> condition \<Rightarrow> bool" where
  "cond_kept c c' \<longleftrightarrow> c_type c' = c_type c \<and> (c_fired c \<longrightarrow> c_fired c')"

definition group_kept :: "event_group \<Rightarrow> event_group \<Rightarrow> bool" where
  "group_kept g g' \<longleftrightarrow> list_all2 cond_kept (g_conditions g) (g_conditions g')"

definition frame_kept :: "frame \<Rightarrow> frame \<Rightarrow> bool" where
  "frame_kept F F' \<longleftrightarrow> list_all2 group_kept (f_events F) (f_events F')"












definition same_box :: "entity \<Rightarrow> entity \<Rightarrow> bool" where
  "same_box a b \<longleftrightarrow>
     e_id a = e_id b \<and> e_x a = e_x b \<and> e_y a = e_y b \<and> e_w a = e_w b \<and> e_h a = e_h b \<and>
     e_movement a = e_movement b"

text \<open>
  The runtime computes positions in binary64 where the model computes with exact
  values. \<open>whole\<close> holds of an integer of magnitude at most \<open>2 ^ 40\<close>: sums and
  differences of two such numbers are exact in binary64, and adding 0.6 to one of them
  gives a result strictly between that number plus 0.5 and that number plus 0.7. An
  entity is \<open>on_grid\<close> when its position and its size are such numbers, as they are
  for an object that the frame editor inserts.
\<close>

definition whole :: "real \<Rightarrow> bool" where
  "whole r \<longleftrightarrow> of_int \<lfloor>r\<rfloor> = r \<and> \<bar>r\<bar> \<le> 2 ^ 40"




section \<open>Basic facts\<close>

lemma ebind_Inr [simp]: "ebind (Inr v) f = f v"
  by (simp add: ebind_def)

lemma ebind_Inl [simp]: "ebind (Inl e) f = Inl e"
  by (simp add: ebind_def)

lemma py_gt_num [simp]: "py_gt (PNum a) (PNum b) = Inr (b < a)"
  by (simp add: py_gt_def)

lemma py_ge_num [simp]: "py_ge (PNum a) (PNum b) = Inr (b \<le> a)"
  by (simp add: py_ge_def)

lemma end_state_simps [simp]:
  "end_state (Inl e) = Inl e" "end_state (Inr (a, s)) = Inr s"
  by (simp_all add: end_state_def)

lemmas example_defs =
  blank_state_def blank_entity_def player_at_def enemy_at_def coin_at_def platform_at_def
  blank_frame_def cond_of_def action_of_def rule_of_def

section \<open>Rule groups without conditions\<close>

lemma end_state_cons:
  "end_state (ebind m (\<lambda>(a, s). Inr (f a, s))) = end_state m"
  by (cases m) auto

lemma process_groups_Cons_state:
  "end_state (process_groups (g # grps) st) =
   (case process_group g st of Inl e \<Rightarrow> Inl e
    | Inr (g', st') \<Rightarrow> end_state (process_groups grps st'))"
proof (cases "process_group g st")
  case (Inl e)
  then show ?thesis by simp
next
  case (Inr r)
  obtain g' st' where r: "r = (g', st')" by (cases r)
  show ?thesis
    using end_state_cons [of "process_groups grps st'" "\<lambda>gs. g' # gs"]
    by (simp add: Inr r)
qed

lemma process_group_no_conditions:
  "g_conditions grp = [] \<Longrightarrow> process_group grp st = Inr (grp, st)"
  by (simp add: process_group_def)

lemma process_groups_skip_empty:
  "end_state (process_groups grps st) =
   end_state (process_groups (filter (\<lambda>g. g_conditions g \<noteq> []) grps) st)"
proof (induction grps arbitrary: st)
  case Nil
  show ?case by simp
next
  case (Cons g grps)
  show ?case
  proof (cases "g_conditions g = []")
    case True
    with Cons.IH [of st] show ?thesis
      by (simp only: process_groups_Cons_state filter.simps process_group_no_conditions) simp
  next
    case False
    then have f: "filter (\<lambda>g. g_conditions g \<noteq> []) (g # grps) =
        g # filter (\<lambda>g. g_conditions g \<noteq> []) grps"
      by simp
    show ?thesis
      unfolding f process_groups_Cons_state
      by (simp add: Cons.IH split: sum.splits)
  qed
qed

text \<open>
  C6. A rule group with an empty condition list never runs its actions: processing it
  returns the group and the state as they were, whatever its action list holds, and
  in a pass over any list of groups the end state is the one reached with those
  groups left out.
\<close>

theorem empty_conditions_never_fire:
  "(g_conditions grp = [] \<longrightarrow> process_group grp st = Inr (grp, st)) \<and>
   end_state (process_groups grps st) =
     end_state (process_groups (filter (\<lambda>g. g_conditions g \<noteq> []) grps) st)"
  using process_group_no_conditions process_groups_skip_empty by blast

theorem empty_conditions_never_fire_witness:
  "g_conditions (rule_of [] [action_of ''End application'' Map.empty]) = [] \<and>
   process_group (rule_of [] [action_of ''End application'' Map.empty]) blank_state =
     Inr (rule_of [] [action_of ''End application'' Map.empty], blank_state)"
  using empty_conditions_never_fire
    [of "rule_of [] [action_of ''End application'' Map.empty]" blank_state "[]"]
  by (simp add: rule_of_def)

section \<open>Lives and scene navigation\<close>

lemma load_frame_out_of_range:
  assumes "r < 0 \<or> real (length (frames st)) \<le> r"
  shows "load_frame (PNum r) st = Inr (close st)"
  using assms by (auto simp: load_frame_def)

lemma navigation_out_of_range_closes:
  assumes "a_type act = ''Go to frame'' \<and> pget (a_params act) ''frame'' (PNum 0) = PNum r
         \<or> a_type act = ''Next frame (app)'' \<and> r = of_int (current_frame_idx st + 1)
         \<or> a_type act = ''Restart frame'' \<and> r = of_int (current_frame_idx st)"
      and "r < 0 \<or> real (length (frames st)) \<le> r"
  shows "exec_action act st = Inr (close st)"
proof -
  have "exec_action act st = load_frame (PNum r) st"
    using assms(1) by (auto simp: exec_action_def)
  then show ?thesis
    using assms(2) by (simp add: load_frame_out_of_range)
qed





section \<open>Player and enemy\<close>

lemma aabb_overlap_num:
  assumes "e_x a = PNum ax" "e_y a = PNum ay" "e_x b = PNum bx" "e_y b = PNum by"
  shows "aabb_overlap a b =
     Inr (ax < bx + e_w b \<and> bx < ax + e_w a \<and> ay < by + e_h b \<and> by < ay + e_h a)"
  using assms by (simp add: aabb_overlap_def)

lemma aabb_overlap_TrueD:
  assumes "aabb_overlap a b = Inr True"
  shows "\<exists>ax ay bx by. e_x a = PNum ax \<and> e_y a = PNum ay \<and> e_x b = PNum bx \<and> e_y b = PNum by
           \<and> ax < bx + e_w b \<and> bx < ax + e_w a \<and> ay < by + e_h b \<and> by < ay + e_h a"
proof -
  obtain bx where bx: "e_x b = PNum bx"
    using assms by (cases "e_x b") (simp_all add: aabb_overlap_def)
  obtain ax where ax: "e_x a = PNum ax"
    using assms bx by (cases "e_x a") (simp_all add: aabb_overlap_def)
  have c1: "ax < bx + e_w b"
    using assms ax bx by (simp add: aabb_overlap_def split: if_splits)
  have c2: "bx < ax + e_w a"
    using assms ax bx c1 by (simp add: aabb_overlap_def split: if_splits)
  obtain "by" where "by": "e_y b = PNum by"
    using assms ax bx c1 c2 by (cases "e_y b") (simp_all add: aabb_overlap_def)
  obtain ay where ay: "e_y a = PNum ay"
    using assms ax bx c1 c2 "by" by (cases "e_y a") (simp_all add: aabb_overlap_def)
  show ?thesis
    using assms ax bx ay "by" by (simp add: aabb_overlap_num)
qed





section \<open>Target selectors\<close>





section \<open>Malformed parameters\<close>

lemma eval_conditions_raises:
  assumes "eval_conditions cpre st = Inr (True, cpre')" "eval_condition c st = Inl err"
  shows "eval_conditions (cpre @ c # cs) st = Inl err"
  using assms(1)
proof (induction cpre arbitrary: cpre')
  case Nil
  show ?case using assms(2) by simp
next
  case (Cons d ds)
  from Cons.prems obtain met d' where d: "eval_condition d st = Inr (met, d')"
    by (cases "eval_condition d st") auto
  with Cons.prems have go: "(if c_negated d then \<not> met else met)"
    by (auto split: if_splits)
  with Cons.prems d obtain ds' where "eval_conditions ds st = Inr (True, ds')"
    by (cases "eval_conditions ds st") (auto split: if_splits)
  then have "eval_conditions (ds @ c # cs) st = Inl err"
    by (rule Cons.IH)
  with d go show ?case
    by simp
qed

lemma exec_actions_raises:
  assumes "exec_actions apre st = Inr st2" "exec_action act st2 = Inl err"
  shows "exec_actions (apre @ act # apost) st = Inl err"
  using assms(1)
proof (induction apre arbitrary: st)
  case Nil
  then show ?case using assms(2) by simp
next
  case (Cons a as)
  then obtain s1 where "exec_action a st = Inr s1" "exec_actions as s1 = Inr st2"
    by (cases "exec_action a st") auto
  then show ?case
    using Cons.IH by simp
qed

lemma process_groups_raises:
  assumes "process_groups pre st = Inr (pre', st1)" "process_group grp st1 = Inl err"
  shows "process_groups (pre @ grp # post) st = Inl err"
  using assms(1)
proof (induction pre arbitrary: st pre')
  case Nil
  then show ?case using assms(2) by simp
next
  case (Cons g gs)
  from Cons.prems obtain g1 s1 where g1: "process_group g st = Inr (g1, s1)"
    by (cases "process_group g st") auto
  with Cons.prems obtain gs1 where "process_groups gs s1 = Inr (gs1, st1)"
    by (cases "process_groups gs s1") auto
  then have "process_groups (gs @ grp # post) s1 = Inl err"
    by (rule Cons.IH)
  with g1 show ?case
    by simp
qed

lemma game_loop_raises:
  assumes "running st" "\<not> paused st" "py_pos (frames st) (current_frame_idx st) = Inr fi"
    and "f_events (frames st ! fi) = pre @ grp # post"
    and "process_groups pre st = Inr (pre', st1)" "process_group grp st1 = Inl err"
  shows "process_events fi st = Inl err \<and> game_loop st = Inl err"
proof -
  have "process_events fi st = Inl err"
    using assms(4) process_groups_raises [OF assms(5,6)] by (simp add: process_events_def)
  then show ?thesis
    using assms(1-3) by (simp add: game_loop_def)
qed

text \<open>
  C5 (as amended). A malformed numeric parameter is not absorbed. "Every N ms" with a period of
  zero raises \<open>ZeroDivisionError\<close>; "Compare counter" with the operator \<open><\<close> against a
  string raises \<open>TypeError\<close> when the first matching entity has a numeric counter; with
  \<open>==\<close> against a string it is false without raising when the matching counters are
  numbers; "Add to score" with a string raises \<open>TypeError\<close> on a numeric score. No
  exception is caught on the way out. When a condition is evaluated (the rule groups
  before its group returned, its group is active and the conditions before it in the
  group were met) and raises, the same exception leaves \<open>process_events\<close> and
  \<open>game_loop\<close>; so does the exception of an action that is run (the conditions of its
  group were met and the actions before it returned).
\<close>

theorem malformed_parameter_raises:
  "(c_type c = ''Every N ms'' \<and> c_params c ''ms'' = Some (PNum 0) \<longrightarrow>
      eval_condition c st = Inl ZeroDivisionError)
   \<and> (c_type c = ''Compare counter'' \<and> c_params c ''op'' = Some (PStr ''<'')
        \<and> c_params c ''value'' = Some (PStr v)
        \<and> find_entities st (PStr (c_target c)) = e # es \<and> e_counter_value e = PNum n \<longrightarrow>
      eval_condition c st = Inl TypeError)
   \<and> (c_type c = ''Compare counter'' \<and> c_params c ''op'' = Some (PStr ''=='')
        \<and> c_params c ''value'' = Some (PStr v)
        \<and> (\<forall>e \<in> set (find_entities st (PStr (c_target c))). \<exists>n. e_counter_value e = PNum n) \<longrightarrow>
      eval_condition c st = Inr (False, c))
   \<and> (a_type act = ''Add to score'' \<and> a_params act ''value'' = Some (PStr v)
        \<and> score st = PNum n \<longrightarrow>
      exec_action act st = Inl TypeError)
   \<and> (running st \<and> \<not> paused st \<and> py_pos (frames st) (current_frame_idx st) = Inr fi
        \<and> f_events (frames st ! fi) = pre @ grp # post
        \<and> process_groups pre st = Inr (pre', sa)
        \<and> g_active grp \<and> g_conditions grp = cpre @ c # cs
        \<and> eval_conditions cpre sa = Inr (True, cpre') \<and> eval_condition c sa = Inl err \<longrightarrow>
      process_events fi st = Inl err \<and> game_loop st = Inl err)
   \<and> (running st \<and> \<not> paused st \<and> py_pos (frames st) (current_frame_idx st) = Inr fi
        \<and> f_events (frames st ! fi) = pre @ grp # post
        \<and> process_groups pre st = Inr (pre', sa)
        \<and> g_active grp \<and> g_conditions grp \<noteq> []
        \<and> eval_conditions (g_conditions grp) sa = Inr (True, cs')
        \<and> g_actions grp = apre @ act # apost
        \<and> exec_actions apre sa = Inr sb \<and> exec_action act sb = Inl err \<longrightarrow>
      process_events fi st = Inl err \<and> game_loop st = Inl err)"
proof -
  have every: "c_type c = ''Every N ms'' \<and> c_params c ''ms'' = Some (PNum 0) \<longrightarrow>
      eval_condition c st = Inl ZeroDivisionError"
    by (simp add: eval_condition_def pget_def)
  have less: "c_type c = ''Compare counter'' \<and> c_params c ''op'' = Some (PStr ''<'')
        \<and> c_params c ''value'' = Some (PStr v)
        \<and> find_entities st (PStr (c_target c)) = e # es \<and> e_counter_value e = PNum n \<longrightarrow>
      eval_condition c st = Inl TypeError"
    by (simp add: eval_condition_def pget_def compare_def)
  have "(\<forall>e \<in> set ents. \<exists>n. e_counter_value e = PNum n) \<Longrightarrow>
      counter_any (PStr ''=='') (PStr v) ents = Inr False" for ents
    by (induction ents) (auto simp: compare_def)
  then have equal: "c_type c = ''Compare counter'' \<and> c_params c ''op'' = Some (PStr ''=='')
        \<and> c_params c ''value'' = Some (PStr v)
        \<and> (\<forall>e \<in> set (find_entities st (PStr (c_target c))). \<exists>n. e_counter_value e = PNum n) \<longrightarrow>
      eval_condition c st = Inr (False, c)"
    by (simp add: eval_condition_def pget_def)
  have add: "a_type act = ''Add to score'' \<and> a_params act ''value'' = Some (PStr v)
        \<and> score st = PNum n \<longrightarrow>
      exec_action act st = Inl TypeError"
    by (simp add: exec_action_def pget_def)
  have cond: "running st \<and> \<not> paused st \<and> py_pos (frames st) (current_frame_idx st) = Inr fi
        \<and> f_events (frames st ! fi) = pre @ grp # post
        \<and> process_groups pre st = Inr (pre', sa)
        \<and> g_active grp \<and> g_conditions grp = cpre @ c # cs
        \<and> eval_conditions cpre sa = Inr (True, cpre') \<and> eval_condition c sa = Inl err \<longrightarrow>
      process_events fi st = Inl err \<and> game_loop st = Inl err"
  proof
    assume a: "running st \<and> \<not> paused st \<and> py_pos (frames st) (current_frame_idx st) = Inr fi
        \<and> f_events (frames st ! fi) = pre @ grp # post
        \<and> process_groups pre st = Inr (pre', sa)
        \<and> g_active grp \<and> g_conditions grp = cpre @ c # cs
        \<and> eval_conditions cpre sa = Inr (True, cpre') \<and> eval_condition c sa = Inl err"
    then have "eval_conditions (g_conditions grp) sa = Inl err"
      using eval_conditions_raises by simp
    with a have "process_group grp sa = Inl err"
      by (simp add: process_group_def)
    with a show "process_events fi st = Inl err \<and> game_loop st = Inl err"
      using game_loop_raises by blast
  qed
  have act: "running st \<and> \<not> paused st \<and> py_pos (frames st) (current_frame_idx st) = Inr fi
        \<and> f_events (frames st ! fi) = pre @ grp # post
        \<and> process_groups pre st = Inr (pre', sa)
        \<and> g_active grp \<and> g_conditions grp \<noteq> []
        \<and> eval_conditions (g_conditions grp) sa = Inr (True, cs')
        \<and> g_actions grp = apre @ act # apost
        \<and> exec_actions apre sa = Inr sb \<and> exec_action act sb = Inl err \<longrightarrow>
      process_events fi st = Inl err \<and> game_loop st = Inl err"
  proof
    assume a: "running st \<and> \<not> paused st \<and> py_pos (frames st) (current_frame_idx st) = Inr fi
        \<and> f_events (frames st ! fi) = pre @ grp # post
        \<and> process_groups pre st = Inr (pre', sa)
        \<and> g_active grp \<and> g_conditions grp \<noteq> []
        \<and> eval_conditions (g_conditions grp) sa = Inr (True, cs')
        \<and> g_actions grp = apre @ act # apost
        \<and> exec_actions apre sa = Inr sb \<and> exec_action act sb = Inl err"
    then have "exec_actions (g_actions grp) sa = Inl err"
      using exec_actions_raises by simp
    with a have "process_group grp sa = Inl err"
      by (simp add: process_group_def)
    with a show "process_events fi st = Inl err \<and> game_loop st = Inl err"
      using game_loop_raises by blast
  qed
  from every less equal add cond act show ?thesis
    by (intro conjI)
qed

theorem malformed_parameter_raises_witness:
  "eval_condition (cond_of ''Every N ms'' [''ms'' \<mapsto> PNum 0]) zero_period_state =
     Inl ZeroDivisionError
   \<and> eval_condition (counter_cond ''<'') counter_state = Inl TypeError
   \<and> eval_condition (counter_cond ''=='') counter_state = Inr (False, counter_cond ''=='')
   \<and> exec_action (action_of ''Add to score'' [''value'' \<mapsto> PStr ''ten'']) counter_state =
       Inl TypeError
   \<and> game_loop zero_period_state = Inl ZeroDivisionError
   \<and> game_loop late_fault_state = Inl ZeroDivisionError
   \<and> game_loop bad_action_state = Inl TypeError"
proof -
  let ?c = "cond_of ''Every N ms'' [''ms'' \<mapsto> PNum 0]"
  let ?always = "cond_of ''Always'' Map.empty"
  let ?e = "blank_entity\<lparr>e_type := PStr ''Counter'', e_name := ''Counter_a000'',
              e_counter_value := PNum 7\<rparr>"
  let ?g = "rule_of [?c] [action_of ''Add to score'' Map.empty]"
  let ?g1 = "rule_of [?always] [action_of ''Add to score'' Map.empty]"
  let ?g2 = "rule_of [?always, ?c] [action_of ''Add life'' Map.empty]"
  let ?bad = "action_of ''Add to score'' [''value'' \<mapsto> PStr ''ten'']"
  let ?g3 = "rule_of [?always] [action_of ''Add life'' Map.empty, ?bad]"
  have c: "c_type ?c = ''Every N ms'' \<and> c_params ?c ''ms'' = Some (PNum 0)"
    by (simp add: cond_of_def)
  have found: "find_entities counter_state (PStr ''Counter'') = [?e]"
    by (simp add: find_entities_def matches_def counter_state_def example_defs)
  have lt: "c_type (counter_cond ''<'') = ''Compare counter''
      \<and> c_params (counter_cond ''<'') ''op'' = Some (PStr ''<'')
      \<and> c_params (counter_cond ''<'') ''value'' = Some (PStr ''ten'')
      \<and> find_entities counter_state (PStr (c_target (counter_cond ''<''))) = ?e # []
      \<and> e_counter_value ?e = PNum 7"
    using found by (simp add: counter_cond_def cond_of_def)
  have eq: "c_type (counter_cond ''=='') = ''Compare counter''
      \<and> c_params (counter_cond ''=='') ''op'' = Some (PStr ''=='')
      \<and> c_params (counter_cond ''=='') ''value'' = Some (PStr ''ten'')
      \<and> (\<forall>e \<in> set (find_entities counter_state (PStr (c_target (counter_cond ''=='')))).
            \<exists>n. e_counter_value e = PNum n)"
    using found by (simp add: counter_cond_def cond_of_def)
  have r1: "eval_condition ?c st = Inl ZeroDivisionError" for st
    using malformed_parameter_raises [where c = ?c and st = st] c by blast
  have run: "running zero_period_state \<and> \<not> paused zero_period_state
      \<and> py_pos (frames zero_period_state) (current_frame_idx zero_period_state) = Inr 0
      \<and> f_events (frames zero_period_state ! 0) = [] @ ?g # []
      \<and> process_groups [] zero_period_state = Inr ([], zero_period_state)
      \<and> g_active ?g \<and> g_conditions ?g = [] @ ?c # []
      \<and> eval_conditions [] zero_period_state = Inr (True, [])"
    by (simp add: zero_period_state_def example_defs py_pos_def)
  have r4: "game_loop zero_period_state = Inl ZeroDivisionError"
    using malformed_parameter_raises
      [where c = ?c and st = zero_period_state and fi = 0 and grp = ?g and pre = "[]"
         and post = "[]" and pre' = "[]" and sa = zero_period_state and cpre = "[]"
         and cpre' = "[]" and cs = "[]" and err = ZeroDivisionError] run r1
    by blast
  let ?s1 = "late_fault_state\<lparr>score := PNum 100\<rparr>"
  have late: "running late_fault_state \<and> \<not> paused late_fault_state
      \<and> py_pos (frames late_fault_state) (current_frame_idx late_fault_state) = Inr 0
      \<and> f_events (frames late_fault_state ! 0) = [?g1] @ ?g2 # []
      \<and> process_groups [?g1] late_fault_state = Inr ([?g1], ?s1)
      \<and> g_active ?g2 \<and> g_conditions ?g2 = [?always] @ ?c # []
      \<and> eval_conditions [?always] ?s1 = Inr (True, [?always])"
    by (simp add: late_fault_state_def example_defs py_pos_def process_group_def
        eval_condition_def exec_action_def pget_def Let_def)
  have r6: "game_loop late_fault_state = Inl ZeroDivisionError"
    using malformed_parameter_raises
      [where c = ?c and st = late_fault_state and fi = 0 and grp = ?g2 and pre = "[?g1]"
         and post = "[]" and pre' = "[?g1]" and sa = ?s1 and cpre = "[?always]"
         and cpre' = "[?always]" and cs = "[]" and err = ZeroDivisionError] late r1
    by blast
  have r2: "eval_condition (counter_cond ''<'') counter_state = Inl TypeError"
    using malformed_parameter_raises
      [where c = "counter_cond ''<''" and st = counter_state and v = "''ten''" and e = ?e
         and es = "[]" and n = 7] lt
    by blast
  have r3: "eval_condition (counter_cond ''=='') counter_state = Inr (False, counter_cond ''=='')"
    using malformed_parameter_raises
      [where c = "counter_cond ''==''" and st = counter_state and v = "''ten''"] eq
    by blast
  have add: "a_type ?bad = ''Add to score'' \<and> a_params ?bad ''value'' = Some (PStr ''ten'')"
    by (simp add: action_of_def)
  have r5: "exec_action ?bad st = Inl TypeError" if "score st = PNum 0" for st
    using malformed_parameter_raises [where act = ?bad and st = st and v = "''ten''" and n = 0]
      add that
    by blast
  let ?s2 = "bad_action_state\<lparr>lives := 4\<rparr>"
  have bad: "running bad_action_state \<and> \<not> paused bad_action_state
      \<and> py_pos (frames bad_action_state) (current_frame_idx bad_action_state) = Inr 0
      \<and> f_events (frames bad_action_state ! 0) = [] @ ?g3 # []
      \<and> process_groups [] bad_action_state = Inr ([], bad_action_state)
      \<and> g_active ?g3 \<and> g_conditions ?g3 \<noteq> []
      \<and> eval_conditions (g_conditions ?g3) bad_action_state = Inr (True, [?always])
      \<and> g_actions ?g3 = [action_of ''Add life'' Map.empty] @ ?bad # []
      \<and> exec_actions [action_of ''Add life'' Map.empty] bad_action_state = Inr ?s2"
    by (simp add: bad_action_state_def example_defs py_pos_def eval_condition_def
        exec_action_def Let_def)
  have "score ?s2 = PNum 0"
    by (simp add: bad_action_state_def blank_state_def)
  then have "exec_action ?bad ?s2 = Inl TypeError"
    by (rule r5)
  with bad have r7: "game_loop bad_action_state = Inl TypeError"
    using malformed_parameter_raises
      [where act = ?bad and st = bad_action_state and fi = 0 and grp = ?g3 and pre = "[]"
         and post = "[]" and pre' = "[]" and sa = bad_action_state and cs' = "[?always]"
         and apre = "[action_of ''Add life'' Map.empty]" and apost = "[]" and sb = ?s2
         and err = TypeError]
    by blast
  have "score counter_state = PNum 0"
    by (simp add: counter_state_def blank_state_def)
  then have r5': "exec_action ?bad counter_state = Inl TypeError"
    by (rule r5)
  from r1 [of zero_period_state] r2 r3 r4 r5' r6 r7 show ?thesis
    by blast
qed

theorem malformed_parameter_counterexample:
  "ticks 1 (session zero_period_project) = Inl ZeroDivisionError"
  by (simp add: session_def runtime_init_def zero_period_project_def example_defs load_frame_def
      game_loop_def py_pos_def process_events_def process_group_def eval_condition_def pget_def)

section \<open>Scene transitions and the start of a frame\<close>

lemmas tick_defs =
  session_def runtime_init_def load_frame_def close_def spawn_def game_loop_def py_pos_def
  py_index_def process_events_def process_group_def eval_condition_def exec_action_def
  pget_def update_physics_def check_coins_def check_enemies_def positions_of_def render_def
  observe_def Let_def

lemma transition_tick1:
  "ticks 1 (session transition_project) =
     Inr (blank_state\<lparr>frames := p_frames transition_project, current_frame_idx := 1,
            frame_ms := 16, tick := 1\<rparr>)"
  by (simp add: tick_defs transition_project_def start_rule_frame_def example_defs)

text \<open>
  C3. A session that starts in a scene whose rule fires at the start of the frame gets
  its 100 points in the first tick. When the same scene is entered by "Go to frame"
  from a rule, the tick that made the transition ends with the start flag cleared and
  the tick counter at 1, and the first tick that evaluates the new scene's rules
  leaves the score at 0.
\<close>

theorem at_start_of_frame_after_transition:
  "observe score (ticks 1 (session start_rule_project)) = Inr (PNum 100)
   \<and> observe current_frame_idx (ticks 1 (session transition_project)) = Inr 1
   \<and> observe frame_started (ticks 1 (session transition_project)) = Inr False
   \<and> observe tick (ticks 1 (session transition_project)) = Inr 1
   \<and> observe score (ticks 2 (session transition_project)) = Inr (PNum 0)"
proof -
  have a: "observe score (ticks 1 (session start_rule_project)) = Inr (PNum 100)"
    by (simp add: tick_defs start_rule_project_def start_rule_frame_def example_defs)
  have "ticks 2 (session transition_project) = ebind (ticks 1 (session transition_project)) game_loop"
    by (simp add: numeral_2_eq_2)
  then have b: "observe score (ticks 2 (session transition_project)) = Inr (PNum 0)"
    unfolding transition_tick1
    by (simp add: tick_defs transition_project_def start_rule_frame_def example_defs)
  have c: "observe current_frame_idx (ticks 1 (session transition_project)) = Inr 1"
    "observe frame_started (ticks 1 (session transition_project)) = Inr False"
    "observe tick (ticks 1 (session transition_project)) = Inr 1"
    unfolding transition_tick1 by (simp_all add: observe_def blank_state_def)
  from a b c show ?thesis
    by (intro conjI)
qed

section \<open>The fired flag of "Once"\<close>

lemma cond_kept_refl [simp]: "cond_kept c c"
  by (simp add: cond_kept_def)

lemma group_kept_refl [simp]: "group_kept g g"
  by (simp add: group_kept_def list_all2_refl)

lemma frame_kept_refl [simp]: "frame_kept F F"
  by (simp add: frame_kept_def list_all2_refl)







lemma efold_invariant:
  assumes "efold f xs a = Inr b" "P a"
    and "\<And>x u v. x \<in> set xs \<Longrightarrow> f x u = Inr v \<Longrightarrow> P u \<Longrightarrow> P v"
  shows "P b"
  using assms
proof (induction xs arbitrary: a)
  case Nil
  then show ?case by simp
next
  case (Cons x xs)
  from Cons.prems(1) obtain u where u: "f x a = Inr u" "efold f xs u = Inr b"
    by (cases "f x a") auto
  have "P u"
    using Cons.prems(2,3) u(1) by (meson list.set_intros(1))
  moreover have "\<And>y u v. y \<in> set xs \<Longrightarrow> f y u = Inr v \<Longrightarrow> P u \<Longrightarrow> P v"
    using Cons.prems(3) by (meson list.set_intros(2))
  ultimately show ?case
    using Cons.IH [OF u(2)] by blast
qed






text \<open>The phases of a tick that ran to its end.\<close>

lemma game_loop_phases:
  assumes "game_loop st = Inr st'" "running st" "\<not> paused st"
  obtains fi s1 s2 s4 s5 where
    "py_pos (frames st) (current_frame_idx st) = Inr fi"
    "process_events fi st = Inr s1"
    "update_physics s1 = Inr s2"
    "check_coins (positions_of (PStr ''Player'') (filter e_alive (entities s2)))
       (s2\<lparr>entities := filter e_alive (entities s2)\<rparr>) = Inr s4"
    "check_enemies (positions_of (PStr ''Player'') (filter e_alive (entities s2))) s4 = Inr s5"
    "render s5 = Inr ()"
    "st' = s5\<lparr>frame_started := False, tick := tick s5 + 1\<rparr>"
proof -
  from assms obtain fi where fi: "py_pos (frames st) (current_frame_idx st) = Inr fi"
    by (cases "py_pos (frames st) (current_frame_idx st)") (simp_all add: game_loop_def)
  with assms obtain s1 where s1: "process_events fi st = Inr s1"
    by (cases "process_events fi st") (simp_all add: game_loop_def)
  with assms fi obtain s2 where s2: "update_physics s1 = Inr s2"
    by (cases "update_physics s1") (simp_all add: game_loop_def)
  let ?s3 = "s2\<lparr>entities := filter e_alive (entities s2)\<rparr>"
  let ?ps = "positions_of (PStr ''Player'') (entities ?s3)"
  from assms fi s1 s2 obtain s4 where s4: "check_coins ?ps ?s3 = Inr s4"
    by (cases "check_coins ?ps ?s3") (simp_all add: game_loop_def Let_def)
  with assms fi s1 s2 obtain s5 where s5: "check_enemies ?ps s4 = Inr s5"
    by (cases "check_enemies ?ps s4") (simp_all add: game_loop_def Let_def)
  with assms fi s1 s2 s4 have r: "render s5 = Inr ()"
    by (cases "render s5") (simp_all add: game_loop_def Let_def)
  with assms fi s1 s2 s4 s5 have "st' = s5\<lparr>frame_started := False, tick := tick s5 + 1\<rparr>"
    by (simp add: game_loop_def Let_def)
  with fi s1 s2 s4 s5 r that show ?thesis
    by simp
qed









section \<open>Pruning and the built-in checks\<close>

















section \<open>A scene index out of range\<close>

lemma update_physics_destroyed:
  "update_physics st = Inr st' \<Longrightarrow> destroyed st' = destroyed st"
  by (auto simp: update_physics_def Let_def ebind_def split: sum.splits)

lemma coin_step_destroyed: "coin_step pc st = Inr st' \<Longrightarrow> destroyed st' = destroyed st"
  by (auto simp: coin_step_def Let_def ebind_def split: sum.splits if_splits)

lemma enemy_step_destroyed: "enemy_step pe st = Inr st' \<Longrightarrow> destroyed st \<Longrightarrow> destroyed st'"
  by (auto simp: enemy_step_def Let_def ebind_def close_def split: sum.splits if_splits)

lemma check_coins_destroyed: "check_coins ps st = Inr st' \<Longrightarrow> destroyed st \<Longrightarrow> destroyed st'"
  unfolding check_coins_def
  by (erule efold_invariant [where P = destroyed]) (simp_all add: coin_step_destroyed)

lemma check_enemies_destroyed:
  "check_enemies ps st = Inr st' \<Longrightarrow> destroyed st \<Longrightarrow> destroyed st'"
  unfolding check_enemies_def
  by (erule efold_invariant [where P = destroyed]) (simp_all add: enemy_step_destroyed)

text \<open>
  A tick whose rules have closed the window does not run to its end: whatever the
  physics and the two checks do, \<open>render\<close> is reached with the canvas destroyed.
\<close>

lemma tick_after_close_raises:
  assumes "running st" "\<not> paused st" "py_pos (frames st) (current_frame_idx st) = Inr fi"
    and "process_events fi st = Inr s1" "destroyed s1"
  shows "\<exists>err. game_loop st = Inl err"
proof (cases "game_loop st")
  case (Inl err)
  then show ?thesis by blast
next
  case (Inr st')
  with assms(1,2) obtain fj u1 u2 u4 u5 where p:
    "py_pos (frames st) (current_frame_idx st) = Inr fj"
    "process_events fj st = Inr u1"
    "update_physics u1 = Inr u2"
    "check_coins (positions_of (PStr ''Player'') (filter e_alive (entities u2)))
       (u2\<lparr>entities := filter e_alive (entities u2)\<rparr>) = Inr u4"
    "check_enemies (positions_of (PStr ''Player'') (filter e_alive (entities u2))) u4 = Inr u5"
    "render u5 = Inr ()"
    by (auto elim: game_loop_phases)
  have "u1 = s1"
    using p(1,2) assms(3,4) by simp
  then have "destroyed u2"
    using update_physics_destroyed [OF p(3)] assms(5) by simp
  then have "destroyed u4"
    using check_coins_destroyed [OF p(4)] by simp
  then have "destroyed u5"
    using check_enemies_destroyed [OF p(5)] by simp
  with p(6) show ?thesis
    by (simp add: render_def)
qed

text \<open>
  C9. "Go to frame" with index 2 in a session of two scenes returns without an
  exception, with the session no longer running and the window destroyed, and a call
  of \<open>game_loop\<close> made after that returns at once. The tick in which a rule makes the
  request does not end that way: it goes on to \<open>render\<close> and raises \<open>TclError\<close>, for
  "Go to frame" with index 2 as for "Next frame (app)" on the last scene.
\<close>

theorem out_of_range_navigation_raises:
  "exec_action (action_of ''Go to frame'' [''frame'' \<mapsto> PNum 2]) two_scenes =
     Inr (two_scenes\<lparr>running := False, destroyed := True\<rparr>)
   \<and> game_loop (two_scenes\<lparr>running := False, destroyed := True\<rparr>) =
       Inr (two_scenes\<lparr>running := False, destroyed := True\<rparr>)
   \<and> ticks 1 (session out_of_range_project) = Inl TclError
   \<and> ticks 1 (session last_scene_project) = Inl TclError"
proof -
  have a: "exec_action (action_of ''Go to frame'' [''frame'' \<mapsto> PNum 2]) two_scenes =
     Inr (two_scenes\<lparr>running := False, destroyed := True\<rparr>)"
    by (simp add: exec_action_def action_of_def pget_def load_frame_def close_def
        two_scenes_def blank_state_def)
  have b: "game_loop (two_scenes\<lparr>running := False, destroyed := True\<rparr>) =
       Inr (two_scenes\<lparr>running := False, destroyed := True\<rparr>)"
    by (simp add: game_loop_def)
  have c: "ticks 1 (session out_of_range_project) = Inl TclError"
    by (simp add: tick_defs out_of_range_project_def example_defs)
  have d: "ticks 1 (session last_scene_project) = Inl TclError"
    by (simp add: tick_defs last_scene_project_def example_defs)
  from a b c d show ?thesis
    by (intro conjI)
qed

section \<open>A player standing on a solid\<close>

text \<open>
  On whole numbers the ordering tests of the vertical phase do not depend on the exact
  amount of the gravity step: an error of up to a tenth in the moved position, far more
  than binary64 rounding at this magnitude, leaves each of them as it is.
\<close>

lemma grid_tests_stable:
  assumes "whole n" "whole m" "\<bar>d\<bar> \<le> 1 / 10"
  shows "(n + 0.6 + d < m \<longleftrightarrow> n + 0.6 < m) \<and> (m < n + 0.6 + d \<longleftrightarrow> m < n + 0.6)"
proof -
  obtain a :: int where a: "n = of_int a"
    using assms(1) by (metis whole_def)
  obtain b :: int where b: "m = of_int b"
    using assms(2) by (metis whole_def)
  have "real_of_int a + 0.6 + d < of_int b \<longleftrightarrow> a + 1 \<le> b"
    using assms(3) by (auto simp: abs_le_iff)
  moreover have "real_of_int a + 0.6 < of_int b \<longleftrightarrow> a + 1 \<le> b"
    by auto
  moreover have "real_of_int b < of_int a + 0.6 + d \<longleftrightarrow> b \<le> a"
    using assms(3) by (auto simp: abs_le_iff)
  moreover have "real_of_int b < of_int a + 0.6 \<longleftrightarrow> b \<le> a"
    by auto
  ultimately show ?thesis
    unfolding a b by blast
qed











lemma same_box_refl [simp]: "same_box a a"
  by (simp add: same_box_def)










end
